theory Spec2Isabelle
  imports Complex_Main "HOL-Library.Sublist" "HOL-Library.AList"
begin

section \<open>Configuration (config.py)\<close>

text \<open>
  The class \<open>Config\<close> holds constants. The properties below are stated for every
  configuration, so the constants the refinement loop and the statistics read are the
  fields of a record; \<open>Config_src\<close> is the configuration written in config.py.
  A Python float is modelled by the real number it denotes.
\<close>

record Config =
  LLM_MODEL :: string
  CHUNK_SIZE :: int
  MAX_RETRIEVAL_DOCS :: int
  MIN_CONFIDENCE_THRESHOLD :: real
  MAX_CORRECTION_ITERATIONS :: int
  MAX_FILE_SIZE_MB :: int

definition Config_src :: Config where
  "Config_src =
     \<lparr>LLM_MODEL = '' deepseek-r1-distill-llama-70b'', CHUNK_SIZE = 1000,
      MAX_RETRIEVAL_DOCS = 5, MIN_CONFIDENCE_THRESHOLD = 7 / 10,
      MAX_CORRECTION_ITERATIONS = 3, MAX_FILE_SIZE_MB = 50\<rparr>"

text \<open>The configurations the specification calls valid (section 6 of the specification).\<close>

definition valid_config :: "Config \<Rightarrow> bool" where
  "valid_config cfg =
     (0 \<le> MIN_CONFIDENCE_THRESHOLD cfg \<and> MIN_CONFIDENCE_THRESHOLD cfg \<le> 1 \<and>
      1 \<le> MAX_CORRECTION_ITERATIONS cfg)"

section \<open>Exceptions\<close>

text \<open>
  Every exception the modelled code can raise is a value; the argument is the name or
  the message the exception carries. \<open>ExternalError\<close> stands for whatever a library
  call outside the repository (the LLM client, the vector store, a loader) raises.
\<close>

datatype error =
    KeyError string
  | AttributeError string
  | ValueError string
  | TypeError string
  | FileNotFoundError string
  | ExternalError string

fun str :: "error \<Rightarrow> string" where
  "str (KeyError k) = [CHR 0x27] @ k @ [CHR 0x27]"
| "str (AttributeError m) = m"
| "str (ValueError m) = m"
| "str (TypeError m) = m"
| "str (FileNotFoundError m) = m"
| "str (ExternalError m) = m"

section \<open>Documents and the state of a query (rag_system.py)\<close>

text \<open>
  A langchain \<open>Document\<close>: its text and, of its metadata dictionary, the keys this
  repository reads or writes, each prefixed \<open>md_\<close> (\<open>None\<close>: the key is absent).
\<close>

record document =
  page_content :: string
  md_source :: "string option"
  md_file_type :: "string option"
  md_file_size_mn :: "real option"
  md_file_hash :: "string option"

text \<open>The values the query metadata dictionary holds.\<close>

datatype meta_value = MInt int | MInts "int list" | MStrs "string set"

text \<open>
  \<open>RAGState\<close>, the typed dictionary threaded through the graph. The field
  \<open>context\<close> of the source is \<open>rag_context\<close> here (the source's name is reserved
  in Isabelle). Every key is present from the initial state on, so the defaults of the
  source's \<open>state.get(key, default)\<close> are never used.
\<close>

record RAGState =
  question :: string
  rag_context :: "string list"
  answer :: string
  confidence :: real
  sources :: "string list"
  corrections_made :: "string list"
  verification_status :: string
  iteration_count :: int
  metadata :: "(string \<times> meta_value) list"

record RAGResponse =
  r_answer :: string
  r_confidence :: real
  r_sources :: "string list"
  r_corrections_made :: "string list"
  r_verification_status :: string
  r_metadata :: "(string \<times> meta_value) list"

text \<open>The state of a \<open>DocumentProcessor\<close>: the chunks held by the vector store
  (\<open>None\<close> before the first file is indexed) and the dictionary from file hash to
  the chunks of that file.\<close>

record DocumentProcessor =
  vectorstore :: "document list option"
  processed_doc :: "(string \<times> document list) list"

definition DocumentProcessor_init :: DocumentProcessor where
  "DocumentProcessor_init = \<lparr>vectorstore = None, processed_doc = []\<rparr>"

section \<open>What the query path calls outside the repository\<close>

text \<open>
  \<open>json.loads\<close> on the verifier's reply either raises \<open>json.JSONDecodeError\<close>,
  or returns a value that is not an object, or returns an object. Of an object the
  model keeps the five keys \<open>verify_answer\<close> reads, \<open>None\<close> for an absent key; a key
  that is present is taken at the type \<open>RAGState\<close> declares for the field it is
  stored in.
\<close>

record verdict =
  v_verification_status :: "string option"
  v_confidence :: "real option"
  v_issues :: "string list option"
  v_missing_information :: "string list option"
  v_legal_concerns :: "string list option"

datatype loads_result = JSONDecodeError | NotAnObject | Object verdict

text \<open>
  The services of a query: the vector store's \<open>similarity_search\<close>, the reply of the
  \<open>k\<close>-th call of \<open>llm.invoke\<close> made by the query (its \<open>content\<close>, or the exception
  it raises), and \<open>json.loads\<close>. Indexing the replies by the call number covers every
  behaviour of the model, whatever the prompts are.
\<close>

record services =
  similarity_search :: "string \<Rightarrow> int \<Rightarrow> error + document list"
  llm_invoke :: "nat \<Rightarrow> error + string"
  json_loads :: "string \<Rightarrow> loads_result"

section \<open>The nodes of the correction graph\<close>

definition search_documents ::
  "Config \<Rightarrow> services \<Rightarrow> DocumentProcessor \<Rightarrow> string \<Rightarrow> error + document list" where
  "search_documents cfg sv dp query =
     (case vectorstore dp of
        None \<Rightarrow> Inl (ValueError ''No documents loaded. Please upload documents first'')
      | Some _ \<Rightarrow> similarity_search sv query (MAX_RETRIEVAL_DOCS cfg))"

definition doc_source :: "document \<Rightarrow> string" where
  "doc_source d = (case md_source d of None \<Rightarrow> ''Unknown'' | Some s \<Rightarrow> s)"

definition retrieve_context ::
  "Config \<Rightarrow> services \<Rightarrow> DocumentProcessor \<Rightarrow> RAGState \<Rightarrow> error + RAGState" where
  "retrieve_context cfg sv dp state =
     (case search_documents cfg sv dp (question state) of
        Inl e \<Rightarrow> Inl e
      | Inr docs \<Rightarrow>
          Inr (state\<lparr>rag_context := map page_content docs,
                     sources := map doc_source docs,
                     metadata :=
                       [(''retrieved_docs'', MInt (int (length docs))),
                        (''source_files'', MStrs (set (map doc_source docs))),
                        (''chunk_sizes'',
                           MInts (map (\<lambda>d. int (length (page_content d))) docs))]\<rparr>))"

definition generate_answer :: "error + string \<Rightarrow> RAGState \<Rightarrow> error + RAGState" where
  "generate_answer response state =
     (case response of
        Inl e \<Rightarrow> Inl e
      | Inr content \<Rightarrow>
          Inr (state\<lparr>answer := content, iteration_count := iteration_count state + 1\<rparr>))"

definition get_default :: "'a list option \<Rightarrow> 'a list" where
  "get_default field = (case field of None \<Rightarrow> [] | Some xs \<Rightarrow> xs)"

definition verify_answer ::
  "(string \<Rightarrow> loads_result) \<Rightarrow> error + string \<Rightarrow> RAGState \<Rightarrow> error + RAGState" where
  "verify_answer loads verification_response state =
     (case verification_response of
        Inl e \<Rightarrow> Inl e
      | Inr content \<Rightarrow>
          (case loads content of
             JSONDecodeError \<Rightarrow>
               Inr (state\<lparr>verification_status := ''NEEDS_CORRECTION'',
                          confidence := 1 / 2,
                          corrections_made :=
                            corrections_made state @ [''Verification parsing error'']\<rparr>)
           | NotAnObject \<Rightarrow> Inl (AttributeError ''get'')
           | Object verification_data \<Rightarrow>
               (let all_issues =
                      get_default (v_issues verification_data) @
                      get_default (v_missing_information verification_data) @
                      get_default (v_legal_concerns verification_data)
                in case v_verification_status verification_data of
                     None \<Rightarrow> Inl (KeyError ''verification_status'')
                   | Some status \<Rightarrow>
                       (case v_confidence verification_data of
                          None \<Rightarrow> Inl (KeyError ''confidence'')
                        | Some conf \<Rightarrow>
                            Inr (state\<lparr>verification_status := status,
                                       confidence := conf,
                                       corrections_made :=
                                         corrections_made state @ all_issues\<rparr>)))))"

definition correct_answer :: "error + string \<Rightarrow> RAGState \<Rightarrow> error + RAGState" where
  "correct_answer correction_response state =
     (case correction_response of
        Inl e \<Rightarrow> Inl e
      | Inr content \<Rightarrow>
          Inr (state\<lparr>answer := content,
                     corrections_made :=
                       corrections_made state @ [''Answer corrected based on verification'']\<rparr>))"

definition finalize_response :: "RAGState \<Rightarrow> RAGState" where
  "finalize_response state =
     state\<lparr>metadata :=
             AList.update ''total_corrections'' (MInt (int (length (corrections_made state))))
               (AList.update ''final_iteration_count'' (MInt (iteration_count state))
                  (metadata state))\<rparr>"

definition should_correct :: "Config \<Rightarrow> RAGState \<Rightarrow> string" where
  "should_correct cfg state =
     (if iteration_count state \<ge> MAX_CORRECTION_ITERATIONS cfg then ''finalize''
      else if verification_status state = ''NEEDS_CORRECTION'' \<or>
              confidence state < MIN_CONFIDENCE_THRESHOLD cfg then ''correct''
      else ''finalize'')"

section \<open>The correction graph (create_correction_graph)\<close>

datatype node = Retrieve | Generate | Verify | Correct | Finalize | END

text \<open>The table of the conditional edge leaving \<open>verify\<close>.\<close>

definition conditional_edges :: "(string \<times> node) list" where
  "conditional_edges = [(''correct'', Correct), (''finalize'', Finalize)]"

text \<open>
  A configuration of a run: the node to execute next, the state, and the number of
  \<open>llm.invoke\<close> calls made so far. \<open>step\<close> executes the node and follows its outgoing
  edge; at \<open>END\<close> nothing is left to execute.
\<close>

type_synonym run_config = "node \<times> RAGState \<times> nat"

fun step :: "Config \<Rightarrow> services \<Rightarrow> DocumentProcessor \<Rightarrow> run_config \<Rightarrow> error + run_config" where
  "step cfg sv dp (Retrieve, state, k) =
     (case retrieve_context cfg sv dp state of
        Inl e \<Rightarrow> Inl e
      | Inr state' \<Rightarrow> Inr (Generate, state', k))"
| "step cfg sv dp (Generate, state, k) =
     (case generate_answer (llm_invoke sv k) state of
        Inl e \<Rightarrow> Inl e
      | Inr state' \<Rightarrow> Inr (Verify, state', Suc k))"
| "step cfg sv dp (Verify, state, k) =
     (case verify_answer (json_loads sv) (llm_invoke sv k) state of
        Inl e \<Rightarrow> Inl e
      | Inr state' \<Rightarrow>
          (case map_of conditional_edges (should_correct cfg state') of
             None \<Rightarrow> Inl (KeyError (should_correct cfg state'))
           | Some nd \<Rightarrow> Inr (nd, state', Suc k)))"
| "step cfg sv dp (Correct, state, k) =
     (case correct_answer (llm_invoke sv k) state of
        Inl e \<Rightarrow> Inl e
      | Inr state' \<Rightarrow> Inr (Verify, state', Suc k))"
| "step cfg sv dp (Finalize, state, k) = Inr (END, finalize_response state, k)"
| "step cfg sv dp (END, state, k) = Inr (END, state, k)"

text \<open>
  Running the graph: \<open>None\<close> when the fuel runs out before \<open>END\<close> is reached,
  otherwise the exception raised or the final state.
\<close>

fun run_graph ::
  "Config \<Rightarrow> services \<Rightarrow> DocumentProcessor \<Rightarrow> nat \<Rightarrow> run_config \<Rightarrow> (error + RAGState) option" where
  "run_graph cfg sv dp 0 c = None"
| "run_graph cfg sv dp (Suc fuel) (nd, state, k) =
     (if nd = END then Some (Inr state)
      else case step cfg sv dp (nd, state, k) of
             Inl e \<Rightarrow> Some (Inl e)
           | Inr c' \<Rightarrow> run_graph cfg sv dp fuel c')"

definition initial_state :: "string \<Rightarrow> RAGState" where
  "initial_state q =
     \<lparr>question = q, rag_context = [], answer = '''', confidence = 0, sources = [],
      corrections_made = [], verification_status = '''', iteration_count = 0,
      metadata = []\<rparr>"

definition query ::
  "Config \<Rightarrow> services \<Rightarrow> DocumentProcessor \<Rightarrow> nat \<Rightarrow> string \<Rightarrow> (error + RAGResponse) option" where
  "query cfg sv dp fuel q =
     (case run_graph cfg sv dp fuel (Retrieve, initial_state q, 0) of
        None \<Rightarrow> None
      | Some (Inl e) \<Rightarrow> Some (Inl e)
      | Some (Inr final_state) \<Rightarrow>
          Some (Inr \<lparr>r_answer = answer final_state,
                     r_confidence = confidence final_state,
                     r_sources = sources final_state,
                     r_corrections_made = corrections_made final_state,
                     r_verification_status = verification_status final_state,
                     r_metadata = metadata final_state\<rparr>))"

text \<open>The configuration after \<open>n\<close> nodes of the query for \<open>q\<close> have been executed.\<close>

fun exec :: "Config \<Rightarrow> services \<Rightarrow> DocumentProcessor \<Rightarrow> string \<Rightarrow> nat \<Rightarrow> error + run_config" where
  "exec cfg sv dp q 0 = Inr (Retrieve, initial_state q, 0)"
| "exec cfg sv dp q (Suc n) =
     (case exec cfg sv dp q n of
        Inl e \<Rightarrow> Inl e
      | Inr c \<Rightarrow> step cfg sv dp c)"

section \<open>Document ingestion (document_processor.py)\<close>

text \<open>
  What ingestion calls outside the repository: the file system (\<open>None\<close>: the file
  cannot be opened; otherwise its bytes), the hex digest \<open>hashlib.md5\<close> gives for the
  bytes fed to it, \<open>pathlib\<close>'s lower-cased suffix and file name, the three loaders,
  the text splitter, and the embedding done by the FAISS store (\<open>Some e\<close>: it raises
  \<open>e\<close>).
\<close>

type_synonym bytes = string

record world =
  files :: "string \<Rightarrow> bytes option"
  md5_hexdigest :: "bytes \<Rightarrow> string"
  suffix_lower :: "string \<Rightarrow> string"
  path_name :: "string \<Rightarrow> string"
  PyPDFLoader_load :: "string \<Rightarrow> error + document list"
  Docx2txtLoader_load :: "string \<Rightarrow> error + document list"
  TextLoader_load :: "string \<Rightarrow> error + document list"
  split_documents :: "document list \<Rightarrow> error + document list"
  embed_documents :: "document list \<Rightarrow> error option"

text \<open>
  \<open>get_file_hash\<close>: the source loops over \<open>filter(lambda: f.read(4096), b"")\<close>, that
  is, over the elements of the empty bytes object that satisfy the predicate; each
  element found is fed to the hash. The predicate is never applied.
\<close>

definition get_file_hash :: "world \<Rightarrow> string \<Rightarrow> error + string" where
  "get_file_hash w file_path =
     (case files w file_path of
        None \<Rightarrow> Inl (FileNotFoundError file_path)
      | Some content \<Rightarrow>
          Inr (md5_hexdigest w
                 (fold (\<lambda>chunk fed. fed @ [chunk])
                    (filter (\<lambda>_. take 4096 content \<noteq> []) ([] :: bytes)) [])))"

text \<open>
  \<open>load_documents\<close> raises for a missing or oversized file; every exception raised
  once the loader is chosen is logged and swallowed, and the function then returns
  Python's \<open>None\<close>. The text of the size message (a formatted float) is shortened, and
  \<open>round(file_size_mb, 2)\<close> is the nearest multiple of one hundredth.
\<close>

definition load_documents :: "Config \<Rightarrow> world \<Rightarrow> string \<Rightarrow> error + document list option" where
  "load_documents cfg w file_path =
     (case files w file_path of
        None \<Rightarrow> Inl (FileNotFoundError (''File not found: '' @ file_path))
      | Some content \<Rightarrow>
          (let file_size_mb = real (length content) / (1024 * 1024) in
           if file_size_mb > real_of_int (MAX_FILE_SIZE_MB cfg)
           then Inl (ValueError ''File is too large'')
           else
             (let file_extention = suffix_lower w file_path in
              case (if file_extention = ''.pdf'' then PyPDFLoader_load w file_path
                    else if file_extention = ''.docx'' then Docx2txtLoader_load w file_path
                    else if file_extention = ''.txt'' then TextLoader_load w file_path
                    else Inl (ValueError (''Unsupported file type: '' @ file_extention))) of
                Inl e \<Rightarrow> Inr None
              | Inr documents \<Rightarrow>
                  (case get_file_hash w file_path of
                     Inl e \<Rightarrow> (if documents = [] then Inr (Some []) else Inr None)
                   | Inr h \<Rightarrow>
                       Inr (Some (map (\<lambda>doc. doc\<lparr>md_source := Some (path_name w file_path),
                                                  md_file_type := Some file_extention,
                                                  md_file_size_mn :=
                                                    Some (real_of_int (round (file_size_mb * 100)) / 100),
                                                  md_file_hash := Some h\<rparr>)
                                    documents))))))"

text \<open>\<open>process_documents\<close>: splitting Python's \<open>None\<close> raises a \<open>TypeError\<close>.\<close>

definition process_documents :: "world \<Rightarrow> document list option \<Rightarrow> error + document list" where
  "process_documents w documents =
     (case documents of
        None \<Rightarrow> Inl (TypeError ''NoneType object is not iterable'')
      | Some ds \<Rightarrow> split_documents w ds)"

definition create_vectorstore ::
  "world \<Rightarrow> DocumentProcessor \<Rightarrow> document list \<Rightarrow> error + DocumentProcessor" where
  "create_vectorstore w dp chunks =
     (case embed_documents w chunks of
        Some e \<Rightarrow> Inl e
      | None \<Rightarrow> Inr (dp\<lparr>vectorstore := Some chunks\<rparr>))"

definition add_docs_to_vectorstore ::
  "world \<Rightarrow> DocumentProcessor \<Rightarrow> document list \<Rightarrow> error + DocumentProcessor" where
  "add_docs_to_vectorstore w dp chunks =
     (case vectorstore dp of
        None \<Rightarrow> create_vectorstore w dp chunks
      | Some store \<Rightarrow>
          (case embed_documents w chunks of
             Some e \<Rightarrow> Inl e
           | None \<Rightarrow> Inr (dp\<lparr>vectorstore := Some (store @ chunks)\<rparr>)))"

record processing_result =
  success :: bool
  message :: string
  chunks_added :: int
  total_chunks :: int

definition failure :: "error \<Rightarrow> processing_result" where
  "failure e =
     \<lparr>success = False, message = ''Error processing file: '' @ str e,
      chunks_added = 0, total_chunks = 0\<rparr>"

definition process_uploaded_file ::
  "Config \<Rightarrow> world \<Rightarrow> DocumentProcessor \<Rightarrow> string \<Rightarrow> processing_result \<times> DocumentProcessor" where
  "process_uploaded_file cfg w dp file_path =
     (case get_file_hash w file_path of
        Inl e \<Rightarrow> (failure e, dp)
      | Inr file_hash \<Rightarrow>
          (case map_of (processed_doc dp) file_hash of
             Some seen \<Rightarrow>
               (\<lparr>success = True, message = ''File already processed'',
                 chunks_added = 0, total_chunks = int (length seen)\<rparr>, dp)
           | None \<Rightarrow>
               (case load_documents cfg w file_path of
                  Inl e \<Rightarrow> (failure e, dp)
                | Inr documents \<Rightarrow>
                    (case process_documents w documents of
                       Inl e \<Rightarrow> (failure e, dp)
                     | Inr chunks \<Rightarrow>
                         (case add_docs_to_vectorstore w dp chunks of
                            Inl e \<Rightarrow> (failure e, dp)
                          | Inr dp' \<Rightarrow>
                              (\<lparr>success = True, message = ''document processed successfully'',
                                chunks_added = int (length chunks),
                                total_chunks = int (length chunks)\<rparr>,
                               dp'\<lparr>processed_doc :=
                                     AList.update file_hash chunks (processed_doc dp')\<rparr>))))))"

text \<open>The loop of \<open>LegalRAGSystem.process_documents\<close> over the uploaded paths: the
  results in order, the chunks added, and the processor afterwards.\<close>

fun process_files ::
  "Config \<Rightarrow> world \<Rightarrow> DocumentProcessor \<Rightarrow> string list \<Rightarrow>
   processing_result list \<times> int \<times> DocumentProcessor" where
  "process_files cfg w dp [] = ([], 0, dp)"
| "process_files cfg w dp (file_path # rest) =
     (case process_uploaded_file cfg w dp file_path of
        (result, dp') \<Rightarrow>
          (case process_files cfg w dp' rest of
             (results, total_added, dp'') \<Rightarrow>
               (result # results,
                (if success result then chunks_added result else 0) + total_added, dp'')))"

section \<open>Statistics\<close>

record index_stats =
  total_documents :: int
  indexed_chunks :: int
  processed_files :: int

text \<open>\<open>get_vectorestore_stats\<close> (spelled so in document_processor.py); the key
  \<open>total_chunks\<close> of its dictionary is the field \<open>indexed_chunks\<close>.\<close>

definition get_vectorestore_stats :: "DocumentProcessor \<Rightarrow> index_stats" where
  "get_vectorestore_stats dp =
     (case vectorstore dp of
        None \<Rightarrow> \<lparr>total_documents = 0, indexed_chunks = 0, processed_files = 0\<rparr>
      | Some store \<Rightarrow>
          \<lparr>total_documents = int (length (processed_doc dp)),
           indexed_chunks = int (length store),
           processed_files = int (length (processed_doc dp))\<rparr>)"

text \<open>
  Python resolves a method by its name when the call is executed. The names an instance
  of \<open>DocumentProcessor\<close> defines are the four attributes set by its constructor and
  the eight methods of the class; of them only \<open>get_vectorestore_stats\<close> can be called
  without an argument. Looking up any other name raises \<open>AttributeError\<close>.
\<close>

definition DocumentProcessor_attributes :: "string list" where
  "DocumentProcessor_attributes =
     [''embeddings'', ''text_splitter'', ''vectorstore'', ''processed_doc'',
      ''get_file_hash'', ''load_documents'', ''process_documents'', ''create_vectorstore'',
      ''add_docs_to_vectorstore'', ''process_uploaded_file'', ''search_documents'',
      ''get_vectorestore_stats'']"

definition call_method0 :: "DocumentProcessor \<Rightarrow> string \<Rightarrow> error + index_stats" where
  "call_method0 dp name =
     (if name \<in> set DocumentProcessor_attributes
      then (if name = ''get_vectorestore_stats'' then Inr (get_vectorestore_stats dp)
            else Inl (TypeError name))
      else Inl (AttributeError name))"

record config_snapshot =
  model :: string
  chunk_size :: int
  max_retrieval_docs :: int
  confidence_threshold :: real
  max_iterations :: int

record system_stats =
  document_stats :: index_stats
  config :: config_snapshot

text \<open>\<open>LegalRAGSystem.get_system_stats\<close> calls
  \<open>self.document_processor.get_vectorstore_stats()\<close>.\<close>

definition get_system_stats :: "Config \<Rightarrow> DocumentProcessor \<Rightarrow> error + system_stats" where
  "get_system_stats cfg dp =
     (case call_method0 dp ''get_vectorstore_stats'' of
        Inl e \<Rightarrow> Inl e
      | Inr stats \<Rightarrow>
          Inr \<lparr>document_stats = stats,
               config =
                 \<lparr>model = LLM_MODEL cfg, chunk_size = CHUNK_SIZE cfg,
                  max_retrieval_docs = MAX_RETRIEVAL_DOCS cfg,
                  confidence_threshold = MIN_CONFIDENCE_THRESHOLD cfg,
                  max_iterations = MAX_CORRECTION_ITERATIONS cfg\<rparr>\<rparr>)"

section \<open>Concrete inputs\<close>

text \<open>
  A processor that has indexed one file of one chunk, and services for a query against
  it: the search returns that chunk, the model answers the first call with a draft,
  every verification call with the same verdict text and every correction call with a
  corrected answer, and \<open>json.loads\<close> decodes the verdict text to a verdict with status
  \<open>NEEDS_CORRECTION\<close> and confidence 0.4.
\<close>

definition lease_chunk :: document where
  "lease_chunk =
     \<lparr>page_content = ''The lease ends on 31 December 2026.'',
      md_source = Some ''lease.txt'', md_file_type = Some ''.txt'',
      md_file_size_mn = Some 0, md_file_hash = Some ''d41d8cd98f00b204e9800998ecf8427e''\<rparr>"

definition dp_loaded :: DocumentProcessor where
  "dp_loaded =
     \<lparr>vectorstore = Some [lease_chunk],
      processed_doc = [(''d41d8cd98f00b204e9800998ecf8427e'', [lease_chunk])]\<rparr>"

definition nc_verdict :: verdict where
  "nc_verdict =
     \<lparr>v_verification_status = Some ''NEEDS_CORRECTION'', v_confidence = Some (2 / 5),
      v_issues = Some [''The end date is not supported by the context''],
      v_missing_information = None, v_legal_concerns = None\<rparr>"

definition stubborn_services :: services where
  "stubborn_services =
     \<lparr>similarity_search = (\<lambda>q k. Inr [lease_chunk]),
      llm_invoke =
        (\<lambda>k. if k = 0 then Inr ''The lease ends in 2027.''
             else if odd k then Inr ''verdict: NEEDS_CORRECTION, 0.4''
             else Inr ''The lease ends in 2026.''),
      json_loads =
        (\<lambda>s. if s = ''verdict: NEEDS_CORRECTION, 0.4'' then Object nc_verdict
             else JSONDecodeError)\<rparr>"

text \<open>The verdict \<open>json.loads\<close> returns for the reply \<open>{}\<close>: an object with no key.\<close>

definition empty_object :: verdict where
  "empty_object =
     \<lparr>v_verification_status = None, v_confidence = None, v_issues = None,
      v_missing_information = None, v_legal_concerns = None\<rparr>"

text \<open>
  A file system with two text files and a Markdown file. The loader returns one page per
  text file, the splitter returns its input, and embedding never fails.
\<close>

definition page :: "string \<Rightarrow> document" where
  "page content =
     \<lparr>page_content = content, md_source = None, md_file_type = None,
      md_file_size_mn = None, md_file_hash = None\<rparr>"

definition demo_world :: world where
  "demo_world =
     \<lparr>files =
        (\<lambda>p. if p = ''lease.txt'' then Some ''The lease ends on 31 December 2026.''
             else if p = ''nda.txt'' then Some ''Both parties keep the terms confidential.''
             else if p = ''notes.md'' then Some ''# Notes''
             else None),
      md5_hexdigest =
        (\<lambda>fed. if fed = [] then ''d41d8cd98f00b204e9800998ecf8427e'' else ''another digest''),
      suffix_lower = (\<lambda>p. if p = ''notes.md'' then ''.md'' else ''.txt''),
      path_name = (\<lambda>p. p),
      PyPDFLoader_load = (\<lambda>p. Inl (ExternalError ''not a PDF file'')),
      Docx2txtLoader_load = (\<lambda>p. Inl (ExternalError ''not a Word file'')),
      TextLoader_load =
        (\<lambda>p. if p = ''lease.txt'' then Inr [page ''The lease ends on 31 December 2026.'']
             else Inr [page ''Both parties keep the terms confidential.'']),
      split_documents = (\<lambda>ds. Inr ds),
      embed_documents = (\<lambda>chunks. None)\<rparr>"

text \<open>The result \<open>process_uploaded_file\<close> returns for a hash it has already stored.\<close>

definition already_processed :: "int \<Rightarrow> processing_result" where
  "already_processed n =
     \<lparr>success = True, message = ''File already processed'', chunks_added = 0,
      total_chunks = n\<rparr>"

section \<open>The decision function and the routing after verification\<close>

lemma step_Verify_routes:
  "verify_answer (json_loads sv) (llm_invoke sv k) st = Inr st' \<Longrightarrow>
   step cfg sv dp (Verify, st, k) =
     Inr (if should_correct cfg st' = ''correct'' then Correct else Finalize, st', Suc k)"
  by (simp add: should_correct_def conditional_edges_def)

text \<open>
  C5. \<open>should_correct\<close> answers \<open>finalize\<close> once \<open>iteration_count\<close> has reached
  \<open>MAX_CORRECTION_ITERATIONS\<close>; below the cap it answers \<open>correct\<close> when the status is
  \<open>NEEDS_CORRECTION\<close> or the confidence is below \<open>MIN_CONFIDENCE_THRESHOLD\<close>, and
  \<open>finalize\<close> otherwise. The graph evaluates it on the state \<open>verify_answer\<close> returned
  and moves to the node of that name.
\<close>

theorem should_correct_decision:
  "(MAX_CORRECTION_ITERATIONS cfg \<le> iteration_count st \<longrightarrow>
      should_correct cfg st = ''finalize'') \<and>
   (iteration_count st < MAX_CORRECTION_ITERATIONS cfg \<and>
    (verification_status st = ''NEEDS_CORRECTION'' \<or>
     confidence st < MIN_CONFIDENCE_THRESHOLD cfg) \<longrightarrow>
      should_correct cfg st = ''correct'') \<and>
   (iteration_count st < MAX_CORRECTION_ITERATIONS cfg \<and>
    verification_status st \<noteq> ''NEEDS_CORRECTION'' \<and>
    \<not> confidence st < MIN_CONFIDENCE_THRESHOLD cfg \<longrightarrow>
      should_correct cfg st = ''finalize'') \<and>
   (verify_answer (json_loads sv) (llm_invoke sv k) st0 = Inr st \<longrightarrow>
      step cfg sv dp (Verify, st0, k) =
        Inr (if should_correct cfg st = ''correct'' then Correct else Finalize, st, Suc k))"
  using step_Verify_routes [of sv k st0 st cfg dp]
  by (simp add: should_correct_def)

lemma stubborn_first_verify:
  "verify_answer (json_loads stubborn_services) (llm_invoke stubborn_services 1)
     ((initial_state q)\<lparr>iteration_count := 1\<rparr>) =
   Inr ((initial_state q)
          \<lparr>iteration_count := 1, verification_status := ''NEEDS_CORRECTION'',
           confidence := 2 / 5,
           corrections_made := [''The end date is not supported by the context'']\<rparr>)"
  by (simp add: stubborn_services_def verify_answer_def nc_verdict_def get_default_def
      initial_state_def)

theorem should_correct_decision_witness:
  "should_correct Config_src
     ((initial_state ''q'')\<lparr>iteration_count := 3, verification_status := ''NEEDS_CORRECTION''\<rparr>)
     = ''finalize'' \<and>
   should_correct Config_src
     ((initial_state ''q'')\<lparr>iteration_count := 1, verification_status := ''VERIFIED'',
                            confidence := 2 / 5\<rparr>)
     = ''correct'' \<and>
   should_correct Config_src
     ((initial_state ''q'')\<lparr>iteration_count := 1, verification_status := ''VERIFIED'',
                            confidence := 9 / 10\<rparr>)
     = ''finalize'' \<and>
   step Config_src stubborn_services dp_loaded
     (Verify, (initial_state ''q'')\<lparr>iteration_count := 1\<rparr>, 1) =
   Inr (Correct,
        (initial_state ''q'')
          \<lparr>iteration_count := 1, verification_status := ''NEEDS_CORRECTION'',
           confidence := 2 / 5,
           corrections_made := [''The end date is not supported by the context'']\<rparr>, 2)"
proof -
  let ?a = "(initial_state ''q'')\<lparr>iteration_count := 3, verification_status := ''NEEDS_CORRECTION''\<rparr>"
  let ?b = "(initial_state ''q'')\<lparr>iteration_count := 1, verification_status := ''VERIFIED'',
                            confidence := 2 / 5\<rparr>"
  let ?c = "(initial_state ''q'')\<lparr>iteration_count := 1, verification_status := ''VERIFIED'',
                            confidence := 9 / 10\<rparr>"
  let ?d = "(initial_state ''q'')
          \<lparr>iteration_count := 1, verification_status := ''NEEDS_CORRECTION'',
           confidence := 2 / 5,
           corrections_made := [''The end date is not supported by the context'']\<rparr>"
  have "should_correct Config_src ?a = ''finalize''"
    using should_correct_decision [of Config_src ?a] by (simp add: Config_src_def)
  moreover have "should_correct Config_src ?b = ''correct''"
    using should_correct_decision [of Config_src ?b] by (simp add: Config_src_def)
  moreover have "should_correct Config_src ?c = ''finalize''"
    using should_correct_decision [of Config_src ?c] by (simp add: Config_src_def)
  moreover have "should_correct Config_src ?d = ''correct''"
    using should_correct_decision [of Config_src ?d] by (simp add: Config_src_def)
  then have "step Config_src stubborn_services dp_loaded
     (Verify, (initial_state ''q'')\<lparr>iteration_count := 1\<rparr>, 1) = Inr (Correct, ?d, 2)"
    using should_correct_decision [of Config_src ?d stubborn_services 1
        "(initial_state ''q'')\<lparr>iteration_count := 1\<rparr>" dp_loaded]
      stubborn_first_verify [of "''q''"]
    by (simp add: eval_nat_numeral)
  ultimately show ?thesis by blast
qed

section \<open>Malformed verifier output\<close>

text \<open>
  C4, as amended. When \<open>json.loads\<close> rejects the verifier's reply with
  \<open>JSONDecodeError\<close>, \<open>verify_answer\<close> does not raise: it returns the state with status
  \<open>NEEDS_CORRECTION\<close>, confidence 0.5 and exactly one entry, the sentinel
  \<open>Verification parsing error\<close>, appended to \<open>corrections_made\<close>.
\<close>

theorem verify_answer_not_json:
  "loads content = JSONDecodeError \<Longrightarrow>
   verify_answer loads (Inr content) st =
     Inr (st\<lparr>verification_status := ''NEEDS_CORRECTION'', confidence := 1 / 2,
             corrections_made := corrections_made st @ [''Verification parsing error'']\<rparr>)"
  by (simp add: verify_answer_def)

theorem verify_answer_not_json_witness:
  "json_loads stubborn_services ''I cannot judge this answer.'' = JSONDecodeError \<and>
   verify_answer (json_loads stubborn_services) (Inr ''I cannot judge this answer.'')
     (initial_state ''q'') =
   Inr ((initial_state ''q'')
          \<lparr>verification_status := ''NEEDS_CORRECTION'', confidence := 1 / 2,
           corrections_made := [''Verification parsing error'']\<rparr>)"
proof -
  have h: "json_loads stubborn_services ''I cannot judge this answer.'' = JSONDecodeError"
    by (simp add: stubborn_services_def)
  from verify_answer_not_json [of "json_loads stubborn_services"
      "''I cannot judge this answer.''" "initial_state ''q''"] h
  show ?thesis by (simp add: initial_state_def)
qed

text \<open>
  C4, as stated, fails for a reply that is valid JSON but lacks the expected fields: for
  the reply \<open>{}\<close> the lookup of \<open>verification_status\<close> raises \<open>KeyError\<close>, which only the
  outer handler catches, and that handler raises it again.
\<close>

theorem verify_answer_missing_field_raises:
  "verify_answer (\<lambda>s. Object empty_object) (Inr ''{}'') (initial_state ''When does the lease end?'')
     = Inl (KeyError ''verification_status'')"
  by (simp add: verify_answer_def empty_object_def)

section \<open>Statistics\<close>

text \<open>
  C8. \<open>get_system_stats\<close> does not return the statistics: whatever the configuration and
  the state of the processor, the call of \<open>get_vectorstore_stats\<close>, a name
  \<open>DocumentProcessor\<close> does not define, raises \<open>AttributeError\<close>.
\<close>

theorem get_system_stats_raises:
  "get_system_stats cfg dp = Inl (AttributeError ''get_vectorstore_stats'')"
  by (simp add: get_system_stats_def call_method0_def DocumentProcessor_attributes_def)

section \<open>Invariants of a run of the graph\<close>

lemma step_iteration_count:
  "step cfg sv dp (nd, st, k) = Inr (nd', st', k') \<Longrightarrow>
   iteration_count st' = (if nd = Generate then iteration_count st + 1 else iteration_count st)"
  by (cases nd)
     (auto simp: retrieve_context_def generate_answer_def verify_answer_def correct_answer_def
        finalize_response_def Let_def
        split: sum.splits loads_result.splits option.splits)

lemma step_next_node:
  "step cfg sv dp (nd, st, k) = Inr (nd', st', k') \<Longrightarrow>
   (case nd of Retrieve \<Rightarrow> nd' = Generate | Generate \<Rightarrow> nd' = Verify
    | Verify \<Rightarrow> nd' = Correct \<or> nd' = Finalize | Correct \<Rightarrow> nd' = Verify
    | Finalize \<Rightarrow> nd' = END | END \<Rightarrow> nd' = END)"
  by (cases nd)
     (auto simp: conditional_edges_def should_correct_def split: sum.splits if_splits)

text \<open>The shape of every run: retrieval first, generation second, and from then on only
  the nodes behind \<open>generate\<close>, with the counter at one.\<close>

lemma exec_shape:
  "exec cfg sv dp q n = Inr (nd, st, k) \<Longrightarrow>
   (n = 0 \<and> nd = Retrieve \<and> st = initial_state q) \<or>
   (n = 1 \<and> nd = Generate \<and> iteration_count st = 0) \<or>
   (2 \<le> n \<and> (nd = Verify \<or> nd = Correct \<or> nd = Finalize \<or> nd = END) \<and>
    iteration_count st = 1)"
proof (induction n arbitrary: nd st k)
  case 0
  then show ?case by simp
next
  case (Suc n)
  from Suc.prems obtain nd0 st0 k0 where
    prev: "exec cfg sv dp q n = Inr (nd0, st0, k0)" and
    stp: "step cfg sv dp (nd0, st0, k0) = Inr (nd, st, k)"
    by (auto split: sum.splits)
  note ih = Suc.IH [OF prev]
  note it = step_iteration_count [OF stp]
  note nx = step_next_node [OF stp]
  from ih show ?case
  proof (elim disjE conjE)
    assume "n = 0" "nd0 = Retrieve" "st0 = initial_state q"
    with it nx show ?thesis by (simp add: initial_state_def)
  next
    assume "n = 1" "nd0 = Generate" "iteration_count st0 = 0"
    with it nx show ?thesis by simp
  next
    assume "2 \<le> n" "iteration_count st0 = 1" "nd0 = Verify"
    with it nx show ?thesis by auto
  next
    assume "2 \<le> n" "iteration_count st0 = 1" "nd0 = Correct"
    with it nx show ?thesis by auto
  next
    assume "2 \<le> n" "iteration_count st0 = 1" "nd0 = Finalize"
    with it nx show ?thesis by auto
  next
    assume "2 \<le> n" "iteration_count st0 = 1" "nd0 = END"
    with it nx show ?thesis by auto
  qed
qed

text \<open>The fourth and fifth configuration of the query against the stubborn verifier:
  a correction has just been applied and the answer returns to \<open>verify\<close>.\<close>

lemma stubborn_exec_3_4:
  "\<exists>st3 st4.
     exec Config_src stubborn_services dp_loaded ''When does the lease end?'' 3 =
       Inr (Correct, st3, 2) \<and>
     step Config_src stubborn_services dp_loaded (Correct, st3, 2) = Inr (Verify, st4, 3) \<and>
     exec Config_src stubborn_services dp_loaded ''When does the lease end?'' 4 =
       Inr (Verify, st4, 3) \<and>
     correct_answer (llm_invoke stubborn_services 2) st3 = Inr st4 \<and>
     corrections_made st3 = [''The end date is not supported by the context'']"
  by (simp add: eval_nat_numeral initial_state_def retrieve_context_def search_documents_def
      dp_loaded_def stubborn_services_def generate_answer_def verify_answer_def
      correct_answer_def nc_verdict_def should_correct_def Config_src_def
      conditional_edges_def get_default_def)

text \<open>
  C2. In every run, whatever the replies of the model, the node \<open>generate\<close> is the one
  executed second and no other (\<open>exec \<dots> n\<close> is about to execute \<open>generate\<close> exactly when
  \<open>n = 1\<close>); the edge leaving \<open>correct\<close> leads to \<open>verify\<close>; \<open>generate\<close> is the only node
  that changes \<open>iteration_count\<close>, by one; so \<open>iteration_count\<close> is 1 in every
  configuration from the first generation on.
\<close>

theorem generate_runs_once:
  "(exec cfg sv dp q n = Inr (nd, st, k) \<longrightarrow>
      (nd = Generate \<longleftrightarrow> n = 1) \<and> (2 \<le> n \<longrightarrow> iteration_count st = 1)) \<and>
   (step cfg sv dp (Correct, st1, k1) = Inr (nd2, st2, k2) \<longrightarrow> nd2 = Verify) \<and>
   (step cfg sv dp (nd1, st1, k1) = Inr (nd2, st2, k2) \<longrightarrow>
      iteration_count st2 =
        (if nd1 = Generate then iteration_count st1 + 1 else iteration_count st1))"
proof (intro conjI impI)
  assume e: "exec cfg sv dp q n = Inr (nd, st, k)"
  from exec_shape [OF e] show "nd = Generate \<longleftrightarrow> n = 1" by auto
  assume "2 \<le> n"
  with exec_shape [OF e] show "iteration_count st = 1" by auto
next
  assume "step cfg sv dp (Correct, st1, k1) = Inr (nd2, st2, k2)"
  from step_next_node [OF this] show "nd2 = Verify" by simp
next
  assume "step cfg sv dp (nd1, st1, k1) = Inr (nd2, st2, k2)"
  from step_iteration_count [OF this]
  show "iteration_count st2 =
        (if nd1 = Generate then iteration_count st1 + 1 else iteration_count st1)" .
qed

theorem generate_runs_once_witness:
  "\<exists>st3 st4.
     exec Config_src stubborn_services dp_loaded ''When does the lease end?'' 4 =
       Inr (Verify, st4, 3) \<and>
     step Config_src stubborn_services dp_loaded (Correct, st3, 2) = Inr (Verify, st4, 3) \<and>
     iteration_count st4 = 1 \<and> iteration_count st4 = iteration_count st3"
proof -
  from stubborn_exec_3_4 obtain st3 st4 where
    e: "exec Config_src stubborn_services dp_loaded ''When does the lease end?'' 4 =
          Inr (Verify, st4, 3)" and
    s: "step Config_src stubborn_services dp_loaded (Correct, st3, 2) = Inr (Verify, st4, 3)"
    by blast
  from generate_runs_once [of Config_src stubborn_services dp_loaded
      "''When does the lease end?''" 4 Verify st4 3 st3 2 Verify st4 3 Correct] e s
  have "iteration_count st4 = 1 \<and> iteration_count st4 = iteration_count st3" by simp
  with e s show ?thesis by blast
qed

lemma step_keeps_context:
  "step cfg sv dp (nd, st, k) = Inr (nd', st', k') \<Longrightarrow> nd \<noteq> Retrieve \<Longrightarrow>
   rag_context st' = rag_context st \<and> sources st' = sources st"
  by (cases nd)
     (auto simp: generate_answer_def verify_answer_def correct_answer_def
        finalize_response_def Let_def
        split: sum.splits loads_result.splits option.splits)

lemma exec_context:
  "exec cfg sv dp q n = Inr (nd, st, k) \<Longrightarrow> 1 \<le> n \<Longrightarrow>
   \<exists>docs. search_documents cfg sv dp q = Inr docs \<and>
          rag_context st = map page_content docs \<and> sources st = map doc_source docs"
proof (induction n arbitrary: nd st k)
  case 0
  then show ?case by simp
next
  case (Suc n)
  from Suc.prems obtain nd0 st0 k0 where
    prev: "exec cfg sv dp q n = Inr (nd0, st0, k0)" and
    stp: "step cfg sv dp (nd0, st0, k0) = Inr (nd, st, k)"
    by (auto split: sum.splits)
  show ?case
  proof (cases n)
    case 0
    with prev have "nd0 = Retrieve" "st0 = initial_state q" by simp_all
    with stp show ?thesis
      by (auto simp: retrieve_context_def initial_state_def split: sum.splits)
  next
    case (Suc m)
    with exec_shape [OF prev] have "nd0 \<noteq> Retrieve" by auto
    from step_keeps_context [OF stp this] Suc.IH [OF prev] Suc show ?thesis by auto
  qed
qed

text \<open>
  C6. In every run, \<open>retrieve\<close> is the first node executed and is executed only then;
  in every later configuration the context and the sources are the texts and the source
  names of the documents the search returned for the question, hence of equal length;
  and no node other than \<open>retrieve\<close> changes either of them.
\<close>

theorem context_set_once:
  "(exec cfg sv dp q n = Inr (nd, st, k) \<longrightarrow>
      (nd = Retrieve \<longleftrightarrow> n = 0) \<and>
      (1 \<le> n \<longrightarrow>
         (\<exists>docs. search_documents cfg sv dp q = Inr docs \<and>
                 rag_context st = map page_content docs \<and>
                 sources st = map doc_source docs) \<and>
         length (rag_context st) = length (sources st))) \<and>
   (step cfg sv dp (nd1, st1, k1) = Inr (nd2, st2, k2) \<and> nd1 \<noteq> Retrieve \<longrightarrow>
      rag_context st2 = rag_context st1 \<and> sources st2 = sources st1)"
proof (intro conjI impI)
  assume e: "exec cfg sv dp q n = Inr (nd, st, k)"
  from exec_shape [OF e] show "nd = Retrieve \<longleftrightarrow> n = 0" by auto
  assume n: "1 \<le> n"
  from exec_context [OF e n]
  show "\<exists>docs. search_documents cfg sv dp q = Inr docs \<and>
          rag_context st = map page_content docs \<and> sources st = map doc_source docs" .
  then show "length (rag_context st) = length (sources st)" by auto
next
  assume "step cfg sv dp (nd1, st1, k1) = Inr (nd2, st2, k2) \<and> nd1 \<noteq> Retrieve"
  then have "rag_context st2 = rag_context st1 \<and> sources st2 = sources st1"
    using step_keeps_context by blast
  then show "rag_context st2 = rag_context st1" "sources st2 = sources st1" by simp_all
qed

theorem context_set_once_witness:
  "\<exists>st3 st4.
     exec Config_src stubborn_services dp_loaded ''When does the lease end?'' 4 =
       Inr (Verify, st4, 3) \<and>
     step Config_src stubborn_services dp_loaded (Correct, st3, 2) = Inr (Verify, st4, 3) \<and>
     rag_context st4 = [''The lease ends on 31 December 2026.''] \<and>
     sources st4 = [''lease.txt''] \<and>
     rag_context st4 = rag_context st3 \<and> sources st4 = sources st3"
proof -
  from stubborn_exec_3_4 obtain st3 st4 where
    e: "exec Config_src stubborn_services dp_loaded ''When does the lease end?'' 4 =
          Inr (Verify, st4, 3)" and
    s: "step Config_src stubborn_services dp_loaded (Correct, st3, 2) = Inr (Verify, st4, 3)"
    by blast
  have d: "search_documents Config_src stubborn_services dp_loaded ''When does the lease end?''
             = Inr [lease_chunk]"
    by (simp add: search_documents_def dp_loaded_def stubborn_services_def)
  from context_set_once [of Config_src stubborn_services dp_loaded
      "''When does the lease end?''" 4 Verify st4 3 Correct st3 2 Verify st4 3] e s d
  have "rag_context st4 = [''The lease ends on 31 December 2026.''] \<and>
        sources st4 = [''lease.txt''] \<and>
        rag_context st4 = rag_context st3 \<and> sources st4 = sources st3"
    by (auto simp: lease_chunk_def doc_source_def)
  with e s show ?thesis by blast
qed

lemma step_appends:
  "step cfg sv dp (nd, st, k) = Inr (nd', st', k') \<Longrightarrow>
   prefix (corrections_made st) (corrections_made st')"
  by (cases nd)
     (auto simp: retrieve_context_def generate_answer_def verify_answer_def correct_answer_def
        finalize_response_def Let_def
        split: sum.splits loads_result.splits option.splits)

lemma exec_appends:
  "exec cfg sv dp q n = Inr (nd, st, k) \<Longrightarrow> exec cfg sv dp q (n + m) = Inr (nd', st', k') \<Longrightarrow>
   prefix (corrections_made st) (corrections_made st')"
proof (induction m arbitrary: nd' st' k')
  case 0
  then show ?case by simp
next
  case (Suc m)
  from Suc.prems(2) obtain nd0 st0 k0 where
    prev: "exec cfg sv dp q (n + m) = Inr (nd0, st0, k0)" and
    stp: "step cfg sv dp (nd0, st0, k0) = Inr (nd', st', k')"
    by (auto split: sum.splits)
  from Suc.IH [OF Suc.prems(1) prev] step_appends [OF stp] show ?case
    by (rule prefix_order.trans)
qed

text \<open>
  C7. \<open>corrections_made\<close> is append-only: the log before any node is a prefix of the log
  after it, and so the log of any configuration of a run is a prefix of the log of every
  later one. A verification whose reply decodes to an object appends the issues, the
  missing information and the legal concerns of the verdict, in this order (an absent
  list counts as empty; a reply that is not JSON appends the sentinel instead, see C4),
  and a correction appends the one marker \<open>Answer corrected based on verification\<close>.
\<close>

theorem corrections_append_only:
  "(step cfg sv dp (nd1, st1, k1) = Inr (nd2, st2, k2) \<longrightarrow>
      prefix (corrections_made st1) (corrections_made st2)) \<and>
   (exec cfg sv dp q n = Inr (nd, st, k) \<and> exec cfg sv dp q (n + m) = Inr (nd', st', k') \<longrightarrow>
      prefix (corrections_made st) (corrections_made st')) \<and>
   (loads content = Object v \<and> verify_answer loads (Inr content) st1 = Inr st2 \<longrightarrow>
      corrections_made st2 =
        corrections_made st1 @
          (get_default (v_issues v) @ get_default (v_missing_information v) @
           get_default (v_legal_concerns v))) \<and>
   (correct_answer response st1 = Inr st2 \<longrightarrow>
      corrections_made st2 =
        corrections_made st1 @ [''Answer corrected based on verification''])"
proof (intro conjI impI)
  assume "step cfg sv dp (nd1, st1, k1) = Inr (nd2, st2, k2)"
  then show "prefix (corrections_made st1) (corrections_made st2)" by (rule step_appends)
next
  assume "exec cfg sv dp q n = Inr (nd, st, k) \<and> exec cfg sv dp q (n + m) = Inr (nd', st', k')"
  then show "prefix (corrections_made st) (corrections_made st')"
    using exec_appends by blast
next
  assume "loads content = Object v \<and> verify_answer loads (Inr content) st1 = Inr st2"
  then show "corrections_made st2 =
        corrections_made st1 @
          (get_default (v_issues v) @ get_default (v_missing_information v) @
           get_default (v_legal_concerns v))"
    by (auto simp: verify_answer_def Let_def split: option.splits)
next
  assume "correct_answer response st1 = Inr st2"
  then show "corrections_made st2 =
        corrections_made st1 @ [''Answer corrected based on verification'']"
    by (auto simp: correct_answer_def split: sum.splits)
qed

theorem corrections_append_only_witness:
  "(\<exists>st3 st4.
     exec Config_src stubborn_services dp_loaded ''When does the lease end?'' 3 =
       Inr (Correct, st3, 2) \<and>
     exec Config_src stubborn_services dp_loaded ''When does the lease end?'' (3 + 1) =
       Inr (Verify, st4, 3) \<and>
     step Config_src stubborn_services dp_loaded (Correct, st3, 2) = Inr (Verify, st4, 3) \<and>
     correct_answer (llm_invoke stubborn_services 2) st3 = Inr st4 \<and>
     prefix (corrections_made st3) (corrections_made st4) \<and>
     corrections_made st4 =
       [''The end date is not supported by the context'',
        ''Answer corrected based on verification'']) \<and>
   (\<exists>st'. json_loads stubborn_services ''verdict: NEEDS_CORRECTION, 0.4'' = Object nc_verdict \<and>
      verify_answer (json_loads stubborn_services) (Inr ''verdict: NEEDS_CORRECTION, 0.4'')
        ((initial_state ''q'')\<lparr>corrections_made := [''an earlier entry'']\<rparr>) = Inr st' \<and>
      corrections_made st' =
        [''an earlier entry'', ''The end date is not supported by the context''])"
proof
  from stubborn_exec_3_4 obtain st3 st4 where
    e3: "exec Config_src stubborn_services dp_loaded ''When does the lease end?'' 3 =
          Inr (Correct, st3, 2)" and
    s: "step Config_src stubborn_services dp_loaded (Correct, st3, 2) = Inr (Verify, st4, 3)" and
    e4: "exec Config_src stubborn_services dp_loaded ''When does the lease end?'' 4 =
          Inr (Verify, st4, 3)" and
    c: "correct_answer (llm_invoke stubborn_services 2) st3 = Inr st4" and
    l: "corrections_made st3 = [''The end date is not supported by the context'']"
    by blast
  from corrections_append_only [of Config_src stubborn_services dp_loaded Correct st3 2
      Verify st4 3 "''When does the lease end?''" 3 Correct st3 2 1 Verify st4 3 _ _ _
      "llm_invoke stubborn_services 2"] e3 e4 s c l
  have "prefix (corrections_made st3) (corrections_made st4) \<and>
        corrections_made st4 =
          [''The end date is not supported by the context'',
           ''Answer corrected based on verification'']"
    by simp
  with e3 e4 s c show "\<exists>st3 st4.
     exec Config_src stubborn_services dp_loaded ''When does the lease end?'' 3 =
       Inr (Correct, st3, 2) \<and>
     exec Config_src stubborn_services dp_loaded ''When does the lease end?'' (3 + 1) =
       Inr (Verify, st4, 3) \<and>
     step Config_src stubborn_services dp_loaded (Correct, st3, 2) = Inr (Verify, st4, 3) \<and>
     correct_answer (llm_invoke stubborn_services 2) st3 = Inr st4 \<and>
     prefix (corrections_made st3) (corrections_made st4) \<and>
     corrections_made st4 =
       [''The end date is not supported by the context'',
        ''Answer corrected based on verification'']" by auto
next
  let ?s = "(initial_state ''q'')\<lparr>corrections_made := [''an earlier entry'']\<rparr>"
  have d: "json_loads stubborn_services ''verdict: NEEDS_CORRECTION, 0.4'' = Object nc_verdict"
    by (simp add: stubborn_services_def)
  then obtain st' where
    v: "verify_answer (json_loads stubborn_services) (Inr ''verdict: NEEDS_CORRECTION, 0.4'') ?s
          = Inr st'"
    by (simp add: verify_answer_def nc_verdict_def)
  from corrections_append_only [of _ _ _ _ ?s _ _ st' _ _ _ _ _ _ _ _ _ _
      "json_loads stubborn_services" "''verdict: NEEDS_CORRECTION, 0.4''" nc_verdict] d v
  have "corrections_made st' =
        [''an earlier entry'', ''The end date is not supported by the context'']"
    by (simp add: nc_verdict_def get_default_def)
  with d v show "\<exists>st'. json_loads stubborn_services ''verdict: NEEDS_CORRECTION, 0.4'' = Object nc_verdict \<and>
      verify_answer (json_loads stubborn_services) (Inr ''verdict: NEEDS_CORRECTION, 0.4'')
        ((initial_state ''q'')\<lparr>corrections_made := [''an earlier entry'']\<rparr>) = Inr st' \<and>
      corrections_made st' =
        [''an earlier entry'', ''The end date is not supported by the context'']" by blast
qed

section \<open>A verifier that never accepts\<close>

lemma stubborn_verify:
  "odd k \<Longrightarrow> iteration_count st = 1 \<Longrightarrow>
   \<exists>st'. step Config_src stubborn_services dp (Verify, st, k) = Inr (Correct, st', Suc k) \<and>
         iteration_count st' = 1 \<and> verification_status st' = ''NEEDS_CORRECTION''"
  by (simp add: stubborn_services_def verify_answer_def nc_verdict_def should_correct_def
      Config_src_def conditional_edges_def)

lemma stubborn_correct:
  "even k \<Longrightarrow> k \<noteq> 0 \<Longrightarrow>
   \<exists>st'. step Config_src stubborn_services dp (Correct, st, k) = Inr (Verify, st', Suc k) \<and>
         iteration_count st' = iteration_count st \<and>
         verification_status st' = verification_status st"
  by (simp add: stubborn_services_def correct_answer_def)

lemma stubborn_loop:
  "iteration_count st = 1 \<Longrightarrow>
   (nd = Verify \<and> odd k) \<or> (nd = Correct \<and> even k \<and> k \<noteq> 0) \<Longrightarrow>
   run_graph Config_src stubborn_services dp fuel (nd, st, k) = None"
proof (induction fuel arbitrary: nd st k)
  case 0
  then show ?case by simp
next
  case (Suc fuel)
  from Suc.prems(2) show ?case
  proof
    assume a: "nd = Verify \<and> odd k"
    with stubborn_verify [of k st dp] Suc.prems(1) obtain st' where
      "step Config_src stubborn_services dp (Verify, st, k) = Inr (Correct, st', Suc k)"
      "iteration_count st' = 1" by blast
    with a Suc.IH [of st' Correct "Suc k"] show ?thesis by simp
  next
    assume a: "nd = Correct \<and> even k \<and> k \<noteq> 0"
    with stubborn_correct [of k dp st] Suc.prems(1) obtain st' where
      "step Config_src stubborn_services dp (Correct, st, k) = Inr (Verify, st', Suc k)"
      "iteration_count st' = 1" by auto
    with a Suc.IH [of st' Verify "Suc k"] show ?thesis by simp
  qed
qed

lemma stubborn_start:
  "\<exists>st. step Config_src stubborn_services dp_loaded (Retrieve, initial_state q, 0) =
          Inr (Generate, st, 0) \<and>
        (\<exists>st'. step Config_src stubborn_services dp_loaded (Generate, st, 0) =
                 Inr (Verify, st', 1) \<and> iteration_count st' = 1 \<and>
               verification_status st' = [])"
  by (simp add: retrieve_context_def search_documents_def dp_loaded_def stubborn_services_def
      generate_answer_def initial_state_def)

text \<open>
  C1. With the configuration of config.py (threshold 0.7, at most 3 iterations, a valid
  configuration) and a verifier that answers \<open>NEEDS_CORRECTION\<close> with confidence 0.4
  every time, the query returns for no amount of fuel: the run never reaches \<open>finalize\<close>.
  The counter stays at 1, below the cap, because the loop between \<open>verify\<close> and
  \<open>correct\<close> does not pass through \<open>generate\<close>.
\<close>

theorem stubborn_query_never_returns:
  "valid_config Config_src \<and> query Config_src stubborn_services dp_loaded fuel q = None"
proof
  show "valid_config Config_src" by (simp add: valid_config_def Config_src_def)
  from stubborn_start [of q] obtain st st' where
    r: "step Config_src stubborn_services dp_loaded (Retrieve, initial_state q, 0) =
          Inr (Generate, st, 0)" and
    g: "step Config_src stubborn_services dp_loaded (Generate, st, 0) = Inr (Verify, st', 1)" and
    i: "iteration_count st' = 1" by blast
  have "run_graph Config_src stubborn_services dp_loaded fuel (Retrieve, initial_state q, 0) = None"
  proof (cases fuel)
    case 0
    then show ?thesis by simp
  next
    case (Suc f1)
    show ?thesis
    proof (cases f1)
      case 0
      with \<open>fuel = Suc f1\<close> r show ?thesis by simp
    next
      case (Suc f2)
      from stubborn_loop [of st' Verify 1 dp_loaded f2] i
      have "run_graph Config_src stubborn_services dp_loaded f2 (Verify, st', 1) = None" by simp
      with \<open>fuel = Suc f1\<close> Suc r g show ?thesis by simp
    qed
  qed
  then show "query Config_src stubborn_services dp_loaded fuel q = None"
    by (simp add: query_def)
qed

lemma stubborn_exec:
  "\<exists>nd st k. exec Config_src stubborn_services dp_loaded q (Suc (Suc n)) = Inr (nd, st, k) \<and>
     ((nd = Verify \<and> odd k \<and>
       verification_status st = (if n = 0 then [] else ''NEEDS_CORRECTION'')) \<or>
      (nd = Correct \<and> even k \<and> k \<noteq> 0 \<and> n \<noteq> 0 \<and>
       verification_status st = ''NEEDS_CORRECTION'')) \<and>
     iteration_count st = 1"
proof (induction n)
  case 0
  from stubborn_start [of q] show ?case by auto
next
  case (Suc n)
  then obtain nd st k where
    e: "exec Config_src stubborn_services dp_loaded q (Suc (Suc n)) = Inr (nd, st, k)" and
    c: "(nd = Verify \<and> odd k \<and>
         verification_status st = (if n = 0 then [] else ''NEEDS_CORRECTION'')) \<or>
        (nd = Correct \<and> even k \<and> k \<noteq> 0 \<and> n \<noteq> 0 \<and>
         verification_status st = ''NEEDS_CORRECTION'')" and
    i: "iteration_count st = 1" by blast
  from c show ?case
  proof
    assume a: "nd = Verify \<and> odd k \<and>
         verification_status st = (if n = 0 then [] else ''NEEDS_CORRECTION'')"
    with stubborn_verify [of k st dp_loaded] i obtain st' where
      "step Config_src stubborn_services dp_loaded (Verify, st, k) = Inr (Correct, st', Suc k)"
      "iteration_count st' = 1" "verification_status st' = ''NEEDS_CORRECTION''" by blast
    with a e show ?thesis by simp
  next
    assume a: "nd = Correct \<and> even k \<and> k \<noteq> 0 \<and> n \<noteq> 0 \<and>
         verification_status st = ''NEEDS_CORRECTION''"
    with stubborn_correct [of k dp_loaded st] i obtain st' where
      "step Config_src stubborn_services dp_loaded (Correct, st, k) = Inr (Verify, st', Suc k)"
      "iteration_count st' = 1" "verification_status st' = ''NEEDS_CORRECTION''" by auto
    with a e show ?thesis by simp
  qed
qed

text \<open>
  C3. In the same run every configuration exists (nothing raises), none is at
  \<open>finalize\<close> or at the end of the graph, and \<open>iteration_count\<close> stays below
  \<open>MAX_CORRECTION_ITERATIONS\<close>; from the first verification on the status is
  \<open>NEEDS_CORRECTION\<close>. So the query does not finalize, with \<open>iteration_count\<close> equal to
  the maximum or otherwise.
\<close>

theorem stubborn_query_never_finalizes:
  "\<exists>nd st k. exec Config_src stubborn_services dp_loaded q n = Inr (nd, st, k) \<and>
     nd \<noteq> Finalize \<and> nd \<noteq> END \<and>
     iteration_count st < MAX_CORRECTION_ITERATIONS Config_src \<and>
     verification_status st = (if n \<le> 2 then [] else ''NEEDS_CORRECTION'')"
proof (cases n)
  case 0
  then show ?thesis by (simp add: initial_state_def Config_src_def)
next
  case (Suc n1)
  show ?thesis
  proof (cases n1)
    case 0
    from stubborn_start [of q] obtain st where
      "step Config_src stubborn_services dp_loaded (Retrieve, initial_state q, 0) =
         Inr (Generate, st, 0)"
      "\<exists>st'. step Config_src stubborn_services dp_loaded (Generate, st, 0) =
              Inr (Verify, st', 1) \<and> iteration_count st' = 1 \<and> verification_status st' = []"
      by blast
    moreover from this have "iteration_count st = 0" "verification_status st = []"
      by (auto simp: retrieve_context_def initial_state_def split: sum.splits)
    ultimately show ?thesis using 0 \<open>n = Suc n1\<close>
      by (simp add: Config_src_def)
  next
    case (Suc n2)
    from stubborn_exec [of q n2] obtain nd st k where
      "exec Config_src stubborn_services dp_loaded q (Suc (Suc n2)) = Inr (nd, st, k)"
      "(nd = Verify \<and> odd k \<and>
        verification_status st = (if n2 = 0 then [] else ''NEEDS_CORRECTION'')) \<or>
       (nd = Correct \<and> even k \<and> k \<noteq> 0 \<and> n2 \<noteq> 0 \<and>
        verification_status st = ''NEEDS_CORRECTION'')"
      "iteration_count st = 1" by blast
    then show ?thesis using Suc \<open>n = Suc n1\<close>
      by (auto simp: Config_src_def)
  qed
qed

section \<open>Ingestion\<close>

lemma get_file_hash_readable:
  "files w p = Some c \<Longrightarrow> get_file_hash w p = Inr (md5_hexdigest w [])"
  by (simp add: get_file_hash_def)

lemma success_stores_hash:
  "process_uploaded_file cfg w dp p = (r, dp') \<Longrightarrow> success r \<Longrightarrow>
   files w p \<noteq> None \<and> (\<exists>seen. map_of (processed_doc dp') (md5_hexdigest w []) = Some seen)"
  by (auto simp: process_uploaded_file_def get_file_hash_def failure_def update_conv'
      split: option.splits sum.splits)

lemma seen_hash_already_processed:
  "map_of (processed_doc dp) (md5_hexdigest w []) = Some seen \<Longrightarrow> files w p = Some c \<Longrightarrow>
   process_uploaded_file cfg w dp p = (already_processed (int (length seen)), dp)"
  by (simp add: process_uploaded_file_def get_file_hash_def already_processed_def)

lemma process_files_seen:
  "map_of (processed_doc dp) (md5_hexdigest w []) = Some seen \<Longrightarrow>
   \<forall>p \<in> set ps. files w p \<noteq> None \<Longrightarrow>
   process_files cfg w dp ps =
     (replicate (length ps) (already_processed (int (length seen))), 0, dp)"
proof (induction ps)
  case Nil
  then show ?case by simp
next
  case (Cons p ps)
  from Cons.prems(2) obtain c where "files w p = Some c" by auto
  from seen_hash_already_processed [OF Cons.prems(1) this]
  have "process_uploaded_file cfg w dp p = (already_processed (int (length seen)), dp)" .
  with Cons show ?case by (simp add: already_processed_def)
qed

lemma demo_first_ingestion:
  "process_uploaded_file Config_src demo_world DocumentProcessor_init ''lease.txt'' =
     (\<lparr>success = True, message = ''document processed successfully'', chunks_added = 1,
       total_chunks = 1\<rparr>, dp_loaded)"
  by (simp add: process_uploaded_file_def get_file_hash_def demo_world_def
      DocumentProcessor_init_def load_documents_def Config_src_def process_documents_def
      add_docs_to_vectorstore_def create_vectorstore_def page_def dp_loaded_def lease_chunk_def
      Let_def round_def)

text \<open>
  C9. For every file that can be opened, \<open>get_file_hash\<close> returns the digest of no bytes
  at all, so two files with different contents get the same hash; and once one ingestion
  has succeeded, the ingestion of every file that can be opened, one after the other,
  reports \<open>File already processed\<close> with no chunk added and leaves the processor as it
  is.
\<close>

theorem hash_ignores_content:
  "(files w p = Some c \<longrightarrow> get_file_hash w p = Inr (md5_hexdigest w [])) \<and>
   (files w p = Some c \<and> files w p' = Some c' \<longrightarrow> get_file_hash w p = get_file_hash w p') \<and>
   (process_uploaded_file cfg w dp p1 = (r1, dp1) \<and> success r1 \<and>
    (\<forall>p \<in> set ps. files w p \<noteq> None) \<longrightarrow>
      (\<exists>n. process_files cfg w dp1 ps = (replicate (length ps) (already_processed n), 0, dp1)))"
proof (intro conjI impI)
  assume "files w p = Some c"
  then show "get_file_hash w p = Inr (md5_hexdigest w [])" by (rule get_file_hash_readable)
next
  assume "files w p = Some c \<and> files w p' = Some c'"
  then show "get_file_hash w p = get_file_hash w p'" by (simp add: get_file_hash_readable)
next
  assume a: "process_uploaded_file cfg w dp p1 = (r1, dp1) \<and> success r1 \<and>
    (\<forall>p \<in> set ps. files w p \<noteq> None)"
  with success_stores_hash [of cfg w dp p1 r1 dp1] obtain seen where
    "map_of (processed_doc dp1) (md5_hexdigest w []) = Some seen" by blast
  from process_files_seen [OF this, of ps cfg] a
  show "\<exists>n. process_files cfg w dp1 ps = (replicate (length ps) (already_processed n), 0, dp1)"
    by blast
qed

theorem hash_ignores_content_witness:
  "get_file_hash demo_world ''lease.txt'' = get_file_hash demo_world ''notes.md'' \<and>
   process_files Config_src demo_world dp_loaded [''nda.txt'', ''notes.md''] =
     ([already_processed 1, already_processed 1], 0, dp_loaded)"
proof -
  have f: "files demo_world ''lease.txt'' = Some ''The lease ends on 31 December 2026.''"
    "files demo_world ''notes.md'' = Some ''# Notes''"
    "\<forall>p \<in> set [''nda.txt'', ''notes.md'']. files demo_world p \<noteq> None"
    by (simp_all add: demo_world_def)
  note t = hash_ignores_content [of demo_world "''lease.txt''"
      "''The lease ends on 31 December 2026.''" "''notes.md''" "''# Notes''" Config_src
      DocumentProcessor_init "''lease.txt''"
      "\<lparr>success = True, message = ''document processed successfully'', chunks_added = 1,
        total_chunks = 1\<rparr>" dp_loaded "[''nda.txt'', ''notes.md'']"]
  from t f have "get_file_hash demo_world ''lease.txt'' = get_file_hash demo_world ''notes.md''"
    by blast
  moreover from t f demo_first_ingestion obtain n where
    n: "process_files Config_src demo_world dp_loaded [''nda.txt'', ''notes.md''] =
       (replicate (length [''nda.txt'', ''notes.md'']) (already_processed n), 0, dp_loaded)"
    by auto
  moreover have "process_uploaded_file Config_src demo_world dp_loaded ''nda.txt'' =
      (already_processed 1, dp_loaded)"
    by (simp add: process_uploaded_file_def get_file_hash_def demo_world_def dp_loaded_def
        already_processed_def)
  with n have "n = 1"
    by (simp add: already_processed_def split: prod.splits)
  ultimately show ?thesis by (simp add: eval_nat_numeral)
qed

text \<open>
  C10, as amended. When the ingestion of a file succeeds, ingesting the same content
  again, under the same or another path, succeeds with no chunk added, reports
  \<open>File already processed\<close>, and leaves the processor as it is.
\<close>

theorem second_ingestion_is_noop:
  "process_uploaded_file cfg w dp p = (r1, dp1) \<Longrightarrow> success r1 \<Longrightarrow> files w p' = files w p \<Longrightarrow>
   success (fst (process_uploaded_file cfg w dp1 p')) \<and>
   chunks_added (fst (process_uploaded_file cfg w dp1 p')) = 0 \<and>
   message (fst (process_uploaded_file cfg w dp1 p')) = ''File already processed'' \<and>
   snd (process_uploaded_file cfg w dp1 p') = dp1"
proof -
  assume a: "process_uploaded_file cfg w dp p = (r1, dp1)" "success r1" and
    same: "files w p' = files w p"
  from success_stores_hash [OF a] same obtain c seen where
    "files w p' = Some c" "map_of (processed_doc dp1) (md5_hexdigest w []) = Some seen" by auto
  from seen_hash_already_processed [OF this(2) this(1)]
  show ?thesis by (simp add: already_processed_def)
qed

theorem second_ingestion_is_noop_witness:
  "success (fst (process_uploaded_file Config_src demo_world DocumentProcessor_init ''lease.txt'')) \<and>
   success (fst (process_uploaded_file Config_src demo_world dp_loaded ''lease.txt'')) \<and>
   chunks_added (fst (process_uploaded_file Config_src demo_world dp_loaded ''lease.txt'')) = 0 \<and>
   snd (process_uploaded_file Config_src demo_world dp_loaded ''lease.txt'') = dp_loaded"
  using second_ingestion_is_noop [OF demo_first_ingestion, of "''lease.txt''"]
    demo_first_ingestion
  by simp

text \<open>
  C10, as stated for every file, fails for a file whose ingestion fails: the Markdown
  file is of no supported type, its first ingestion reports a failure and stores no hash,
  and its second ingestion reports a failure again, not a success.
\<close>

theorem failed_ingestion_fails_again:
  "\<not> success (fst (process_uploaded_file Config_src demo_world DocumentProcessor_init ''notes.md'')) \<and>
   \<not> success (fst (process_uploaded_file Config_src demo_world
       (snd (process_uploaded_file Config_src demo_world DocumentProcessor_init ''notes.md''))
       ''notes.md''))"
  by (simp add: process_uploaded_file_def get_file_hash_def demo_world_def
      DocumentProcessor_init_def load_documents_def Config_src_def process_documents_def
      failure_def)

end
